theory Spec2Isabelle
  imports Main "HOL-Library.AList"
begin

section \<open>Python exceptions and control flow\<close>

text \<open>
  The exceptions the modelled code raises or lets through. \<open>ImportError\<close> and
  \<open>DataViewSetError\<close> carry their message; \<open>RuntimeError\<close> carries the value
  the message is formatted from; \<open>OtherException\<close> is an exception of any other
  class, by the name of the class.
\<close>

datatype exn =
    ImportError string
  | RuntimeError string
  | IndexError
  | AttributeError
  | TypeError
  | TraitError
  | DataViewSetError string
  | OtherException string

text \<open>How a block of statements inside a loop ends.\<close>

datatype completion = Normal | Break | Continue | Raise exn

section \<open>\<open>pyface/qt/__init__.py\<close>: the Qt API selector\<close>

text \<open>
  What the module reads from the interpreter when it is imported: the keys of
  \<open>sys.modules\<close>, the value of \<open>os.environ.get('QT_API')\<close>, and for each module name
  whether importing it succeeds (\<open>True\<close>) or raises \<open>ImportError\<close> (\<open>False\<close>).
\<close>

record environment =
  sys_modules :: "string set"
  environ_QT_API :: "string option"
  import_module :: "string \<Rightarrow> bool"

text \<open>
  The module's globals and effects: \<open>qt_api\<close>, the modules it tried to import (in
  order), and the API versions handed to \<open>sip.setapi\<close>.
\<close>

record qt_module =
  qt_api :: "string option"
  imports_tried :: "string list"
  sip_api :: "(string \<times> nat) list"

definition QtAPIs :: "(string \<times> string) list" where
  "QtAPIs = [(''pyside'', ''PySide''), (''pyqt5'', ''PyQt5''), (''pyqt'', ''PyQt4'')]"

text \<open>
  Lines 35-42: the first \<open>for\<close> loop with its \<open>else\<close>. The loop breaks at the first
  entry whose module is a key of \<open>sys.modules\<close>; the \<open>else\<close> of the loop (no break)
  reads the environment variable.
\<close>

fun already_imported :: "string set \<Rightarrow> (string \<times> string) list \<Rightarrow> string option" where
  "already_imported mods [] = None"
| "already_imported mods ((api_name, module) # rest) =
     (if module \<in> mods then Some api_name else already_imported mods rest)"

definition preferred_api :: "environment \<Rightarrow> string option" where
  "preferred_api env =
     (case already_imported (sys_modules env) QtAPIs of
        Some api_name \<Rightarrow> Some api_name
      | None \<Rightarrow> environ_QT_API env)"

text \<open>
  Lines 47-54: one \<open>try\<close> statement of the second loop. Its body imports the module,
  assigns \<open>qt_api\<close> and breaks; \<open>except ImportError\<close> continues the loop; the \<open>else\<close>
  clause belongs to the \<open>try\<close> (it is indented under it), so it runs only when the body
  ends normally, and raises \<open>ImportError\<close>.
\<close>

definition try_body :: "environment \<Rightarrow> qt_module \<Rightarrow> string \<times> string \<Rightarrow> completion \<times> qt_module" where
  "try_body env st entry =
     (let st1 = st\<lparr>imports_tried := imports_tried st @ [snd entry]\<rparr>
      in if import_module env (snd entry)
         then (Break, st1\<lparr>qt_api := Some (fst entry)\<rparr>)
         else (Raise (ImportError (snd entry)), st1))"

definition try_import :: "environment \<Rightarrow> qt_module \<Rightarrow> string \<times> string \<Rightarrow> completion \<times> qt_module" where
  "try_import env st entry =
     (case try_body env st entry of
        (Raise (ImportError msg), st') \<Rightarrow> (Continue, st')
      | (Normal, st') \<Rightarrow> (Raise (ImportError ''Cannot import PySide, PyQt5 or PyQt4''), st')
      | (c, st') \<Rightarrow> (c, st'))"

text \<open>Lines 46-54: the second \<open>for\<close> loop, which has no \<open>else\<close> of its own.\<close>

fun find_available :: "environment \<Rightarrow> qt_module \<Rightarrow> (string \<times> string) list \<Rightarrow> exn option \<times> qt_module" where
  "find_available env st [] = (None, st)"
| "find_available env st (entry # rest) =
     (case try_import env st entry of
        (Break, st') \<Rightarrow> (None, st')
      | (Raise e, st') \<Rightarrow> (Some e, st')
      | (c, st') \<Rightarrow> find_available env st' rest)"

text \<open>
  Lines 33-60: the selection. The result is the exception raised, if any, and the
  module's state at that point.
\<close>

definition select_qt_api :: "environment \<Rightarrow> exn option \<times> qt_module" where
  "select_qt_api env =
     (let st = \<lparr>qt_api = preferred_api env, imports_tried = [], sip_api = []\<rparr>
      in case qt_api st of
           None \<Rightarrow> find_available env st QtAPIs
         | Some api \<Rightarrow>
             if api \<notin> set (map fst QtAPIs) then (Some (RuntimeError api), st)
             else (None, st))"

text \<open>Lines 22-31: \<open>prepare_pyqt4\<close> imports \<open>sip\<close> and sets the version 2 APIs.\<close>

definition prepare_pyqt4 :: "environment \<Rightarrow> qt_module \<Rightarrow> exn option \<times> qt_module" where
  "prepare_pyqt4 env st =
     (let st1 = st\<lparr>imports_tried := imports_tried st @ [''sip'']\<rparr>
      in if import_module env ''sip''
         then (None, st1\<lparr>sip_api := [(''QDate'', 2), (''QDateTime'', 2), (''QString'', 2),
                 (''QTextStream'', 2), (''QTime'', 2), (''QUrl'', 2), (''QVariant'', 2)]\<rparr>)
         else (Some (ImportError ''sip''), st1))"

text \<open>The whole module body, as run once when the package is first imported.\<close>

definition qt_init :: "environment \<Rightarrow> exn option \<times> qt_module" where
  "qt_init env =
     (case select_qt_api env of
        (Some e, st) \<Rightarrow> (Some e, st)
      | (None, st) \<Rightarrow>
          if qt_api st = Some ''pyqt'' then prepare_pyqt4 env st else (None, st))"

section \<open>Python values and the operations the row infos call\<close>

text \<open>
  A value is \<open>None\<close>, a bool, an int, a str, or a reference to an object that lives
  on the heap (a \<open>HasTraits\<close> instance, a dictionary, ...). Objects are changed in
  place, so every operation on them takes the heap and gives back the heap after it.
\<close>

datatype pyobj =
    PyNone
  | PyBool bool
  | PyInt int
  | PyStr string
  | Ref nat

text \<open>
  The row infos call four operations that are defined outside the repository:
  \<open>xgetattr(object, xname, default)\<close> and \<open>xsetattr(object, xname, value)\<close> of
  \<open>traits.trait_base\<close>, the method call \<open>data.get(key, default)\<close> and the item
  assignment \<open>data[key] = value\<close> on what \<open>xgetattr\<close> found. What they do depends on
  the classes of the objects at hand: which attributes an object has, whether a trait
  accepts, converts or rejects what is assigned to it. They are parameters: for a heap
  of type \<open>'s\<close> each gives what the call returned or raised and the heap after the
  call (\<open>None\<close> for a procedure that returned).
\<close>

record 's runtime =
  xgetattr :: "'s \<Rightarrow> pyobj \<Rightarrow> string \<Rightarrow> pyobj \<Rightarrow> (exn + pyobj) \<times> 's"
  xsetattr :: "'s \<Rightarrow> pyobj \<Rightarrow> string \<Rightarrow> pyobj \<Rightarrow> exn option \<times> 's"
  call_get :: "'s \<Rightarrow> pyobj \<Rightarrow> string \<Rightarrow> pyobj \<Rightarrow> (exn + pyobj) \<times> 's"
  setitem :: "'s \<Rightarrow> pyobj \<Rightarrow> string \<Rightarrow> pyobj \<Rightarrow> exn option \<times> 's"

text \<open>
  \<open>xs[i]\<close> on a list: a negative index counts from the end, an index outside the list
  raises \<open>IndexError\<close>. \<open>position xs i\<close> is the place the index stands for.
\<close>

definition position :: "'a list \<Rightarrow> int \<Rightarrow> nat" where
  "position xs i = (if i < 0 then nat (int (length xs) + i) else nat i)"

definition in_range :: "'a list \<Rightarrow> int \<Rightarrow> bool" where
  "in_range xs i = (- int (length xs) \<le> i \<and> i < int (length xs))"

definition getitem :: "'a list \<Rightarrow> int \<Rightarrow> exn + 'a" where
  "getitem xs i = (if in_range xs i then Inr (xs ! position xs i) else Inl IndexError)"

section \<open>\<open>pyface/data_view/data_models/column_data_model.py\<close>\<close>

text \<open>
  The two concrete row infos. \<open>value_name\<close> is the trait \<open>value\<close>: the extended
  (dotted) name of the trait holding the value.
\<close>

datatype AbstractRowInfo =
    HasTraitsRowInfo (title: string) (rows: "AbstractRowInfo list") (value_name: string)
  | DictRowInfo (title: string) (rows: "AbstractRowInfo list") (value_name: string)
      (key: string)

text \<open>
  \<open>HasTraitsRowInfo\<close>, lines 96-106. The methods return what they return or raise,
  and the heap as they leave it.
\<close>

definition HasTraitsRowInfo_get_value ::
    "'s runtime \<Rightarrow> AbstractRowInfo \<Rightarrow> 's \<Rightarrow> pyobj \<Rightarrow> (exn + pyobj) \<times> 's" where
  "HasTraitsRowInfo_get_value rt self s obj = xgetattr rt s obj (value_name self) PyNone"

definition HasTraitsRowInfo_can_set_value :: "AbstractRowInfo \<Rightarrow> pyobj \<Rightarrow> bool" where
  "HasTraitsRowInfo_can_set_value self obj = (value_name self \<noteq> [])"

definition HasTraitsRowInfo_set_value ::
    "'s runtime \<Rightarrow> AbstractRowInfo \<Rightarrow> 's \<Rightarrow> pyobj \<Rightarrow> pyobj \<Rightarrow> (exn + bool) \<times> 's" where
  "HasTraitsRowInfo_set_value rt self s obj v =
     (if value_name self = [] then (Inr False, s)
      else (case xsetattr rt s obj (value_name self) v of
              (Some e, s') \<Rightarrow> (Inl e, s')
            | (None, s') \<Rightarrow> (Inr True, s')))"

text \<open>\<open>DictRowInfo\<close>, lines 129-139.\<close>

definition DictRowInfo_get_value ::
    "'s runtime \<Rightarrow> AbstractRowInfo \<Rightarrow> 's \<Rightarrow> pyobj \<Rightarrow> (exn + pyobj) \<times> 's" where
  "DictRowInfo_get_value rt self s obj =
     (case xgetattr rt s obj (value_name self) PyNone of
        (Inl e, s1) \<Rightarrow> (Inl e, s1)
      | (Inr found, s1) \<Rightarrow> call_get rt s1 found (key self) PyNone)"

definition DictRowInfo_can_set_value :: "AbstractRowInfo \<Rightarrow> pyobj \<Rightarrow> bool" where
  "DictRowInfo_can_set_value self obj = (value_name self \<noteq> [])"

definition DictRowInfo_set_value ::
    "'s runtime \<Rightarrow> AbstractRowInfo \<Rightarrow> 's \<Rightarrow> pyobj \<Rightarrow> pyobj \<Rightarrow> (exn + bool) \<times> 's" where
  "DictRowInfo_set_value rt self s obj v =
     (case xgetattr rt s obj (value_name self) PyNone of
        (Inl e, s1) \<Rightarrow> (Inl e, s1)
      | (Inr found, s1) \<Rightarrow>
          (case setitem rt s1 found (key self) v of
             (Some e, s2) \<Rightarrow> (Inl e, s2)
           | (None, s2) \<Rightarrow> (Inr True, s2)))"

text \<open>Method dispatch on the class of the row info.\<close>

fun get_value ::
    "'s runtime \<Rightarrow> AbstractRowInfo \<Rightarrow> 's \<Rightarrow> pyobj \<Rightarrow> (exn + pyobj) \<times> 's" where
  "get_value rt (HasTraitsRowInfo t rs n) s obj =
     HasTraitsRowInfo_get_value rt (HasTraitsRowInfo t rs n) s obj"
| "get_value rt (DictRowInfo t rs n k) s obj =
     DictRowInfo_get_value rt (DictRowInfo t rs n k) s obj"

fun can_set_value :: "AbstractRowInfo \<Rightarrow> pyobj \<Rightarrow> bool" where
  "can_set_value (HasTraitsRowInfo t rs n) obj =
     HasTraitsRowInfo_can_set_value (HasTraitsRowInfo t rs n) obj"
| "can_set_value (DictRowInfo t rs n k) obj =
     DictRowInfo_can_set_value (DictRowInfo t rs n k) obj"

fun set_value ::
    "'s runtime \<Rightarrow> AbstractRowInfo \<Rightarrow> 's \<Rightarrow> pyobj \<Rightarrow> pyobj \<Rightarrow> (exn + bool) \<times> 's" where
  "set_value rt (HasTraitsRowInfo t rs n) s obj v =
     HasTraitsRowInfo_set_value rt (HasTraitsRowInfo t rs n) s obj v"
| "set_value rt (DictRowInfo t rs n k) s obj v =
     DictRowInfo_set_value rt (DictRowInfo t rs n k) s obj v"

text \<open>
  The column data model: the objects shown in columns (references into the heap) and
  the root row info. No method below assigns either trait.
\<close>

record ColumnDataModel =
  data :: "pyobj list"
  row_info :: AbstractRowInfo

text \<open>
  \<open>_row_info_object\<close>: the loop \<open>for index in row: row_info = row_info.rows[index]\<close>.
\<close>

fun row_info_loop :: "AbstractRowInfo \<Rightarrow> int list \<Rightarrow> exn + AbstractRowInfo" where
  "row_info_loop info [] = Inr info"
| "row_info_loop info (index # row) =
     (case getitem (rows info) index of
        Inl e \<Rightarrow> Inl e
      | Inr info' \<Rightarrow> row_info_loop info' row)"

definition row_info_object :: "ColumnDataModel \<Rightarrow> int list \<Rightarrow> exn + AbstractRowInfo" where
  "row_info_object self row = row_info_loop (row_info self) row"

definition get_column_count :: "ColumnDataModel \<Rightarrow> int list \<Rightarrow> nat" where
  "get_column_count self row = length (data self)"

definition can_have_children :: "ColumnDataModel \<Rightarrow> int list \<Rightarrow> exn + bool" where
  "can_have_children self row =
     (if length row = 0 then Inr True
      else (case row_info_object self row of
              Inl e \<Rightarrow> Inl e
            | Inr info \<Rightarrow> Inr (length (rows info) \<noteq> 0)))"

definition get_row_count :: "ColumnDataModel \<Rightarrow> int list \<Rightarrow> exn + nat" where
  "get_row_count self row =
     (case row_info_object self row of
        Inl e \<Rightarrow> Inl e
      | Inr info \<Rightarrow> Inr (length (rows info)))"

definition ColumnDataModel_get_value ::
    "'s runtime \<Rightarrow> ColumnDataModel \<Rightarrow> 's \<Rightarrow> int list \<Rightarrow> int list \<Rightarrow> (exn + pyobj) \<times> 's" where
  "ColumnDataModel_get_value rt self s row column =
     (case row_info_object self row of
        Inl e \<Rightarrow> (Inl e, s)
      | Inr info \<Rightarrow>
          if length column = 0 then (Inr (PyStr (title info)), s)
          else (case getitem (data self) (hd column) of
                  Inl e \<Rightarrow> (Inl e, s)
                | Inr obj \<Rightarrow> get_value rt info s obj))"

definition ColumnDataModel_set_value ::
    "'s runtime \<Rightarrow> ColumnDataModel \<Rightarrow> 's \<Rightarrow> int list \<Rightarrow> int list \<Rightarrow> pyobj \<Rightarrow>
       (exn + bool) \<times> 's" where
  "ColumnDataModel_set_value rt self s row column v =
     (case row_info_object self row of
        Inl e \<Rightarrow> (Inl e, s)
      | Inr info \<Rightarrow>
          if length column = 0 then (Inr False, s)
          else (case getitem (data self) (hd column) of
                  Inl e \<Rightarrow> (Inl e, s)
                | Inr obj \<Rightarrow> set_value rt info s obj v))"

text \<open>
  A row path is valid in a tree of row infos when each index selects a child of the row
  info before it; \<open>row_at\<close> is the row info the path leads to.
\<close>

fun valid_row :: "AbstractRowInfo \<Rightarrow> int list \<Rightarrow> bool" where
  "valid_row info [] = True"
| "valid_row info (index # row) =
     (in_range (rows info) index \<and> valid_row (rows info ! position (rows info) index) row)"

fun row_at :: "AbstractRowInfo \<Rightarrow> int list \<Rightarrow> AbstractRowInfo" where
  "row_at info [] = info"
| "row_at info (index # row) = row_at (rows info ! position (rows info) index) row"

section \<open>\<open>pyface/data_view/abstract_value_type.py\<close>\<close>

text \<open>
  The default \<open>set_text\<close> of \<open>AbstractValueType\<close>. A call that returned would hand
  back the model as it left it; the default body is a single \<open>raise\<close>.
\<close>

definition set_text :: "'m \<Rightarrow> int list \<Rightarrow> int list \<Rightarrow> string \<Rightarrow> exn + 'm" where
  "set_text model row column text_arg = Inl (DataViewSetError ''Cannot set value.'')"

section \<open>\<open>pyface/color_dialog.py\<close>\<close>

text \<open>
  The dialog class comes from the toolkit backend and the constant \<open>OK\<close> from
  \<open>pyface.constant\<close>; both are parameters here. \<open>ColorDialog\<close> is the constructor with
  its keyword arguments \<open>parent\<close>, \<open>color\<close> and \<open>show_alpha\<close> (\<open>None\<close> for a keyword
  that the call does not give), \<open>dialog_open\<close> runs the dialog and returns its result
  code with the dialog as the user left it, \<open>dialog_color\<close> reads \<open>dialog.color\<close>.
\<close>

record ('p, 'c, 'd, 'r) toolkit =
  ColorDialog :: "'p option \<Rightarrow> 'c option \<Rightarrow> bool option \<Rightarrow> 'd"
  dialog_open :: "'d \<Rightarrow> 'r \<times> 'd"
  dialog_color :: "'d \<Rightarrow> 'c"
  OK :: 'r

definition get_color :: "('p, 'c, 'd, 'r) toolkit \<Rightarrow> 'p \<Rightarrow> 'c \<Rightarrow> bool \<Rightarrow> 'c option" where
  "get_color tk parent color show_alpha =
     (let dialog = ColorDialog tk None (Some color) None;
          (result, dialog') = dialog_open tk dialog
      in if result = OK tk then Some (dialog_color tk dialog') else None)"

section \<open>\<open>examples/data_view/column_example.py\<close>\<close>

text \<open>The row infos of the example, lines 43-76.\<close>

definition example_row_info :: AbstractRowInfo where
  "example_row_info =
     HasTraitsRowInfo ''People''
       [HasTraitsRowInfo ''Age'' [] ''age'',
        HasTraitsRowInfo ''Address''
          [HasTraitsRowInfo ''Street'' [] ''address.street'',
           HasTraitsRowInfo ''City'' [] ''address.city'',
           HasTraitsRowInfo ''Country'' [] ''address.country'']
          ''address'']
       ''name''"

text \<open>
  A heap for the examples: an object on it is an instance with its attribute values or
  a dictionary with its items. \<open>Address\<close> and \<open>Person\<close> are the classes of lines
  25-40, an instance given by the values of its traits.
\<close>

datatype heap_object =
    Instance "(string \<times> pyobj) list"
  | Dict "(string \<times> pyobj) list"

type_synonym heap = "(nat \<times> heap_object) list"

definition Address :: "string \<Rightarrow> string \<Rightarrow> string \<Rightarrow> heap_object" where
  "Address street city country =
     Instance [(''street'', PyStr street), (''city'', PyStr city), (''country'', PyStr country)]"

definition Person :: "string \<Rightarrow> int \<Rightarrow> pyobj \<Rightarrow> heap_object" where
  "Person name age address =
     Instance [(''name'', PyStr name), (''age'', PyInt age), (''address'', address)]"

definition example_heap :: heap where
  "example_heap =
     [(0, Person ''Alan Jones'' 41 (Ref 1)),
      (1, Address ''12 Elm Street'' ''Austin'' ''USA''),
      (2, Person ''Gael Young'' 27 (Ref 3)),
      (3, Address ''3 Oak Lane'' ''Cambridge'' ''UK'')]"

definition example_model :: ColumnDataModel where
  "example_model = \<lparr>data = [Ref 0, Ref 2], row_info = example_row_info\<rparr>"

text \<open>
  A runtime over this heap, for the examples; the properties of the row infos and of
  the model are stated for every runtime. It covers the calls the examples make: the
  names are traits that the instance lists, and the values are ones the trait stores as
  they are. An instance has the attributes it lists (no \<open>__dict__\<close>, no methods), a
  value that is no instance has none (no \<open>real\<close> of an int), a trait neither rejects
  nor converts what is assigned, and only a dictionary has \<open>get\<close> and takes an item.
  \<open>xgetattr\<close> and \<open>xsetattr\<close> split the name at the dots and walk all parts but
  the last with \<open>getattr\<close>; \<open>xgetattr\<close> gives the default as soon as a part is
  missing or \<open>None\<close>, \<open>xsetattr\<close> raises at a missing part and assigns the last.
\<close>

definition heap_getattr :: "heap \<Rightarrow> pyobj \<Rightarrow> string \<Rightarrow> exn + pyobj" where
  "heap_getattr h object name =
     (case object of
        Ref a \<Rightarrow>
          (case map_of h a of
             Some (Instance attrs) \<Rightarrow>
               (case map_of attrs name of Some v \<Rightarrow> Inr v | None \<Rightarrow> Inl AttributeError)
           | _ \<Rightarrow> Inl AttributeError)
      | _ \<Rightarrow> Inl AttributeError)"

definition heap_setattr :: "heap \<Rightarrow> pyobj \<Rightarrow> string \<Rightarrow> pyobj \<Rightarrow> exn option \<times> heap" where
  "heap_setattr h object name v =
     (case object of
        Ref a \<Rightarrow>
          (case map_of h a of
             Some (Instance attrs) \<Rightarrow>
               (None, AList.update a (Instance (AList.update name v attrs)) h)
           | _ \<Rightarrow> (Some AttributeError, h))
      | _ \<Rightarrow> (Some AttributeError, h))"

fun split_dots :: "string \<Rightarrow> string list" where
  "split_dots [] = [[]]"
| "split_dots (c # cs) =
     (if c = CHR ''.'' then [] # split_dots cs
      else (case split_dots cs of
              [] \<Rightarrow> [[c]]
            | name # names \<Rightarrow> (c # name) # names))"

fun heap_xgetattr_names :: "heap \<Rightarrow> pyobj \<Rightarrow> string list \<Rightarrow> pyobj \<Rightarrow> pyobj" where
  "heap_xgetattr_names h object [] dflt = dflt"
| "heap_xgetattr_names h object [name] dflt =
     (case heap_getattr h object name of Inr v \<Rightarrow> v | Inl e \<Rightarrow> dflt)"
| "heap_xgetattr_names h object (name # names) dflt =
     (case heap_getattr h object name of
        Inr inner \<Rightarrow> if inner = PyNone then dflt else heap_xgetattr_names h inner names dflt
      | Inl e \<Rightarrow> dflt)"

fun heap_xsetattr_names :: "heap \<Rightarrow> pyobj \<Rightarrow> string list \<Rightarrow> pyobj \<Rightarrow> exn option \<times> heap" where
  "heap_xsetattr_names h object [] v = (Some IndexError, h)"
| "heap_xsetattr_names h object [name] v = heap_setattr h object name v"
| "heap_xsetattr_names h object (name # names) v =
     (case heap_getattr h object name of
        Inl e \<Rightarrow> (Some e, h)
      | Inr inner \<Rightarrow> heap_xsetattr_names h inner names v)"

definition heap_dict_get :: "heap \<Rightarrow> pyobj \<Rightarrow> string \<Rightarrow> pyobj \<Rightarrow> exn + pyobj" where
  "heap_dict_get h object k dflt =
     (case object of
        Ref a \<Rightarrow>
          (case map_of h a of
             Some (Dict items) \<Rightarrow>
               Inr (case map_of items k of Some v \<Rightarrow> v | None \<Rightarrow> dflt)
           | _ \<Rightarrow> Inl AttributeError)
      | _ \<Rightarrow> Inl AttributeError)"

definition heap_dict_setitem :: "heap \<Rightarrow> pyobj \<Rightarrow> string \<Rightarrow> pyobj \<Rightarrow> exn option \<times> heap" where
  "heap_dict_setitem h object k v =
     (case object of
        Ref a \<Rightarrow>
          (case map_of h a of
             Some (Dict items) \<Rightarrow> (None, AList.update a (Dict (AList.update k v items)) h)
           | _ \<Rightarrow> (Some TypeError, h))
      | _ \<Rightarrow> (Some TypeError, h))"

definition example_runtime :: "heap runtime" where
  "example_runtime =
     \<lparr>xgetattr = (\<lambda>h object xname dflt.
          (Inr (heap_xgetattr_names h object (split_dots xname) dflt), h)),
      xsetattr = (\<lambda>h object xname v. heap_xsetattr_names h object (split_dots xname) v),
      call_get = (\<lambda>h object k dflt. (heap_dict_get h object k dflt, h)),
      setitem = heap_dict_setitem\<rparr>"

section \<open>Properties of the Qt API selector\<close>

lemma try_import_cases:
  "try_import env st entry =
     (if import_module env (snd entry)
      then (Break, st\<lparr>imports_tried := imports_tried st @ [snd entry], qt_api := Some (fst entry)\<rparr>)
      else (Continue, st\<lparr>imports_tried := imports_tried st @ [snd entry]\<rparr>))"
  by (simp add: try_import_def try_body_def Let_def)

lemma no_binding_already_imported:
  "sys_modules env \<inter> {''PySide'', ''PyQt5'', ''PyQt4''} = {} \<Longrightarrow>
   already_imported (sys_modules env) QtAPIs = None"
  by (auto simp: QtAPIs_def)

lemma preferred_api_no_binding:
  "sys_modules env \<inter> {''PySide'', ''PyQt5'', ''PyQt4''} = {} \<Longrightarrow>
   preferred_api env = environ_QT_API env"
  by (simp add: preferred_api_def no_binding_already_imported)

lemma find_available_QtAPIs:
  "find_available env st QtAPIs =
     (if import_module env ''PySide''
      then (None, st\<lparr>imports_tried := imports_tried st @ [''PySide''],
                      qt_api := Some ''pyside''\<rparr>)
      else if import_module env ''PyQt5''
      then (None, st\<lparr>imports_tried := imports_tried st @ [''PySide'', ''PyQt5''],
                      qt_api := Some ''pyqt5''\<rparr>)
      else if import_module env ''PyQt4''
      then (None, st\<lparr>imports_tried := imports_tried st @ [''PySide'', ''PyQt5'', ''PyQt4''],
                      qt_api := Some ''pyqt''\<rparr>)
      else (None, st\<lparr>imports_tried := imports_tried st @ [''PySide'', ''PyQt5'', ''PyQt4'']\<rparr>))"
  by (simp add: QtAPIs_def try_import_cases)

text \<open>
  C1. The claim: with no Qt binding in \<open>sys.modules\<close>, \<open>QT_API\<close> unset and none of
  PySide, PyQt5, PyQt4 importable, importing the module raises \<open>ImportError\<close>. The code
  does not: every failed import continues the loop, the \<open>else\<close> that raises hangs on the
  \<open>try\<close> whose body always leaves by \<open>break\<close>, and the loop ends with nothing raised
  and \<open>qt_api\<close> still \<open>None\<close>, after the three imports were tried.
\<close>

theorem qt_init_nothing_importable:
  assumes "sys_modules env \<inter> {''PySide'', ''PyQt5'', ''PyQt4''} = {}"
    and "environ_QT_API env = None"
    and "\<not> import_module env ''PySide''"
    and "\<not> import_module env ''PyQt5''"
    and "\<not> import_module env ''PyQt4''"
  shows "qt_init env =
      (None, \<lparr>qt_api = None, imports_tried = [''PySide'', ''PyQt5'', ''PyQt4''],
                sip_api = []\<rparr>)"
  using assms
  by (simp add: qt_init_def select_qt_api_def preferred_api_no_binding find_available_QtAPIs)

theorem qt_init_nothing_importable_witness:
  "qt_init \<lparr>sys_modules = {}, environ_QT_API = None, import_module = (\<lambda>m. False)\<rparr> =
      (None, \<lparr>qt_api = None, imports_tried = [''PySide'', ''PyQt5'', ''PyQt4''],
                sip_api = []\<rparr>)"
  by (rule qt_init_nothing_importable) simp_all

text \<open>
  C8. With no Qt binding in \<open>sys.modules\<close> and \<open>QT_API\<close> set to a value other than
  \<open>pyside\<close>, \<open>pyqt5\<close> and \<open>pyqt\<close>, importing the module raises \<open>RuntimeError\<close> for
  that value, and no import has been tried.
\<close>

theorem qt_init_invalid_QT_API:
  assumes "sys_modules env \<inter> {''PySide'', ''PyQt5'', ''PyQt4''} = {}"
    and "environ_QT_API env = Some v"
    and "v \<notin> {''pyside'', ''pyqt5'', ''pyqt''}"
  shows "qt_init env =
      (Some (RuntimeError v), \<lparr>qt_api = Some v, imports_tried = [], sip_api = []\<rparr>)"
  using assms
  by (simp add: qt_init_def select_qt_api_def preferred_api_no_binding QtAPIs_def)

theorem qt_init_invalid_QT_API_witness:
  "qt_init \<lparr>sys_modules = {''os'', ''sys''}, environ_QT_API = Some ''pyqt6'',
            import_module = (\<lambda>m. True)\<rparr> =
      (Some (RuntimeError ''pyqt6''),
       \<lparr>qt_api = Some ''pyqt6'', imports_tried = [], sip_api = []\<rparr>)"
  by (rule qt_init_invalid_QT_API) simp_all

lemma select_qt_api_already_imported:
  "already_imported (sys_modules env) QtAPIs = Some api \<Longrightarrow>
   select_qt_api env = (None, \<lparr>qt_api = Some api, imports_tried = [], sip_api = []\<rparr>)"
  by (auto simp: select_qt_api_def preferred_api_def QtAPIs_def split: if_splits)

lemma imports_tried_select_qt_api:
  "imports_tried (snd (select_qt_api env)) \<noteq> [] \<Longrightarrow> preferred_api env = None"
  by (cases "preferred_api env") (simp_all add: select_qt_api_def Let_def split: if_splits)

lemma preferred_api_None:
  "preferred_api env = None \<Longrightarrow>
   sys_modules env \<inter> {''PySide'', ''PyQt5'', ''PyQt4''} = {} \<and> environ_QT_API env = None"
  by (auto simp: preferred_api_def QtAPIs_def split: option.splits if_splits)

lemma qt_api_qt_init: "qt_api (snd (qt_init env)) = qt_api (snd (select_qt_api env))"
  by (auto simp: qt_init_def prepare_pyqt4_def Let_def split: prod.splits option.splits)

text \<open>
  C6. The choice is made once, by the module body, in this order. A binding that is
  already a key of \<open>sys.modules\<close> decides, the first of PySide, PyQt5, PyQt4 that is
  there, whatever \<open>QT_API\<close> holds and with no import. Otherwise a \<open>QT_API\<close> that is
  one of \<open>pyside\<close>, \<open>pyqt5\<close>, \<open>pyqt\<close> is the choice, again with no import during
  the selection. Otherwise, with \<open>QT_API\<close> unset, PySide, PyQt5 and PyQt4 are tried in
  this order up to the first that imports. An import is tried by the selection only in
  that last case, and the rest of the module body (\<open>prepare_pyqt4\<close>, which imports
  \<open>sip\<close> when the choice is \<open>pyqt\<close>) leaves \<open>qt_api\<close> as selected.
\<close>

theorem select_qt_api_precedence:
  "(''PySide'' \<in> sys_modules env \<longrightarrow>
      select_qt_api env = (None, \<lparr>qt_api = Some ''pyside'', imports_tried = [], sip_api = []\<rparr>)) \<and>
   (''PySide'' \<notin> sys_modules env \<and> ''PyQt5'' \<in> sys_modules env \<longrightarrow>
      select_qt_api env = (None, \<lparr>qt_api = Some ''pyqt5'', imports_tried = [], sip_api = []\<rparr>)) \<and>
   (''PySide'' \<notin> sys_modules env \<and> ''PyQt5'' \<notin> sys_modules env \<and> ''PyQt4'' \<in> sys_modules env \<longrightarrow>
      select_qt_api env = (None, \<lparr>qt_api = Some ''pyqt'', imports_tried = [], sip_api = []\<rparr>)) \<and>
   (sys_modules env \<inter> {''PySide'', ''PyQt5'', ''PyQt4''} = {} \<and>
    environ_QT_API env = Some v \<and> v \<in> {''pyside'', ''pyqt5'', ''pyqt''} \<longrightarrow>
      select_qt_api env = (None, \<lparr>qt_api = Some v, imports_tried = [], sip_api = []\<rparr>) \<and>
      imports_tried (snd (qt_init env)) = (if v = ''pyqt'' then [''sip''] else [])) \<and>
   (sys_modules env \<inter> {''PySide'', ''PyQt5'', ''PyQt4''} = {} \<and> environ_QT_API env = None \<longrightarrow>
      (import_module env ''PySide'' \<longrightarrow>
         select_qt_api env =
           (None, \<lparr>qt_api = Some ''pyside'', imports_tried = [''PySide''], sip_api = []\<rparr>)) \<and>
      (\<not> import_module env ''PySide'' \<and> import_module env ''PyQt5'' \<longrightarrow>
         select_qt_api env =
           (None, \<lparr>qt_api = Some ''pyqt5'', imports_tried = [''PySide'', ''PyQt5''],
                    sip_api = []\<rparr>)) \<and>
      (\<not> import_module env ''PySide'' \<and> \<not> import_module env ''PyQt5'' \<and>
       import_module env ''PyQt4'' \<longrightarrow>
         select_qt_api env =
           (None, \<lparr>qt_api = Some ''pyqt'', imports_tried = [''PySide'', ''PyQt5'', ''PyQt4''],
                    sip_api = []\<rparr>)) \<and>
      imports_tried (snd (select_qt_api env)) =
        (if import_module env ''PySide'' then [''PySide'']
         else if import_module env ''PyQt5'' then [''PySide'', ''PyQt5'']
         else [''PySide'', ''PyQt5'', ''PyQt4''])) \<and>
   (imports_tried (snd (select_qt_api env)) \<noteq> [] \<longrightarrow>
      sys_modules env \<inter> {''PySide'', ''PyQt5'', ''PyQt4''} = {} \<and> environ_QT_API env = None) \<and>
   qt_api (snd (qt_init env)) = qt_api (snd (select_qt_api env))"
proof -
  have a: "select_qt_api env =
      (None, \<lparr>qt_api = Some ''pyside'', imports_tried = [], sip_api = []\<rparr>)"
    if "''PySide'' \<in> sys_modules env"
    using that by (intro select_qt_api_already_imported) (simp add: QtAPIs_def)
  have b: "select_qt_api env =
      (None, \<lparr>qt_api = Some ''pyqt5'', imports_tried = [], sip_api = []\<rparr>)"
    if "''PySide'' \<notin> sys_modules env" "''PyQt5'' \<in> sys_modules env"
    using that by (intro select_qt_api_already_imported) (simp add: QtAPIs_def)
  have c: "select_qt_api env =
      (None, \<lparr>qt_api = Some ''pyqt'', imports_tried = [], sip_api = []\<rparr>)"
    if "''PySide'' \<notin> sys_modules env" "''PyQt5'' \<notin> sys_modules env"
      "''PyQt4'' \<in> sys_modules env"
    using that by (intro select_qt_api_already_imported) (simp add: QtAPIs_def)
  have d: "select_qt_api env = (None, \<lparr>qt_api = Some v, imports_tried = [], sip_api = []\<rparr>)"
    if "sys_modules env \<inter> {''PySide'', ''PyQt5'', ''PyQt4''} = {}"
      "environ_QT_API env = Some v" "v \<in> {''pyside'', ''pyqt5'', ''pyqt''}"
    using that by (auto simp: select_qt_api_def preferred_api_no_binding QtAPIs_def)
  have d': "imports_tried (snd (qt_init env)) = (if v = ''pyqt'' then [''sip''] else [])"
    if "sys_modules env \<inter> {''PySide'', ''PyQt5'', ''PyQt4''} = {}"
      "environ_QT_API env = Some v" "v \<in> {''pyside'', ''pyqt5'', ''pyqt''}"
    using d [OF that] by (simp add: qt_init_def prepare_pyqt4_def Let_def)
  have e: "select_qt_api env =
        (if import_module env ''PySide''
         then (None, \<lparr>qt_api = Some ''pyside'', imports_tried = [''PySide''], sip_api = []\<rparr>)
         else if import_module env ''PyQt5''
         then (None, \<lparr>qt_api = Some ''pyqt5'', imports_tried = [''PySide'', ''PyQt5''],
                       sip_api = []\<rparr>)
         else if import_module env ''PyQt4''
         then (None, \<lparr>qt_api = Some ''pyqt'',
                       imports_tried = [''PySide'', ''PyQt5'', ''PyQt4''], sip_api = []\<rparr>)
         else (None, \<lparr>qt_api = None,
                       imports_tried = [''PySide'', ''PyQt5'', ''PyQt4''], sip_api = []\<rparr>))"
    if "sys_modules env \<inter> {''PySide'', ''PyQt5'', ''PyQt4''} = {}" "environ_QT_API env = None"
    using that by (simp add: select_qt_api_def preferred_api_no_binding find_available_QtAPIs)
  have e1: "select_qt_api env =
      (None, \<lparr>qt_api = Some ''pyside'', imports_tried = [''PySide''], sip_api = []\<rparr>)"
    if "sys_modules env \<inter> {''PySide'', ''PyQt5'', ''PyQt4''} = {}" "environ_QT_API env = None"
      "import_module env ''PySide''"
    using e [OF that(1,2)] that(3) by simp
  have e2: "select_qt_api env =
      (None, \<lparr>qt_api = Some ''pyqt5'', imports_tried = [''PySide'', ''PyQt5''], sip_api = []\<rparr>)"
    if "sys_modules env \<inter> {''PySide'', ''PyQt5'', ''PyQt4''} = {}" "environ_QT_API env = None"
      "\<not> import_module env ''PySide''" "import_module env ''PyQt5''"
    using e [OF that(1,2)] that(3,4) by simp
  have e3: "select_qt_api env =
      (None, \<lparr>qt_api = Some ''pyqt'', imports_tried = [''PySide'', ''PyQt5'', ''PyQt4''],
               sip_api = []\<rparr>)"
    if "sys_modules env \<inter> {''PySide'', ''PyQt5'', ''PyQt4''} = {}" "environ_QT_API env = None"
      "\<not> import_module env ''PySide''" "\<not> import_module env ''PyQt5''"
      "import_module env ''PyQt4''"
    using e [OF that(1,2)] that(3,4,5) by simp
  have e4: "imports_tried (snd (select_qt_api env)) =
        (if import_module env ''PySide'' then [''PySide'']
         else if import_module env ''PyQt5'' then [''PySide'', ''PyQt5'']
         else [''PySide'', ''PyQt5'', ''PyQt4''])"
    if "sys_modules env \<inter> {''PySide'', ''PyQt5'', ''PyQt4''} = {}" "environ_QT_API env = None"
    using e [OF that] by simp
  have f: "sys_modules env \<inter> {''PySide'', ''PyQt5'', ''PyQt4''} = {} \<and> environ_QT_API env = None"
    if "imports_tried (snd (select_qt_api env)) \<noteq> []"
    using that by (intro preferred_api_None imports_tried_select_qt_api)
  from a b c d d' e1 e2 e3 e4 f qt_api_qt_init [of env] show ?thesis by blast
qed

theorem select_qt_api_precedence_witness:
  "select_qt_api \<lparr>sys_modules = {''sys'', ''PyQt5'', ''PyQt4''}, environ_QT_API = Some ''pyside'',
                   import_module = (\<lambda>m. True)\<rparr> =
     (None, \<lparr>qt_api = Some ''pyqt5'', imports_tried = [], sip_api = []\<rparr>) \<and>
   select_qt_api \<lparr>sys_modules = {''sys''}, environ_QT_API = Some ''pyqt'',
                   import_module = (\<lambda>m. True)\<rparr> =
     (None, \<lparr>qt_api = Some ''pyqt'', imports_tried = [], sip_api = []\<rparr>) \<and>
   select_qt_api \<lparr>sys_modules = {''sys''}, environ_QT_API = None,
                   import_module = (\<lambda>m. m = ''PyQt5'' \<or> m = ''PyQt4'')\<rparr> =
     (None, \<lparr>qt_api = Some ''pyqt5'', imports_tried = [''PySide'', ''PyQt5''], sip_api = []\<rparr>)"
  using
    select_qt_api_precedence [of "\<lparr>sys_modules = {''sys'', ''PyQt5'', ''PyQt4''},
      environ_QT_API = Some ''pyside'', import_module = (\<lambda>m. True)\<rparr>"]
    select_qt_api_precedence [of "\<lparr>sys_modules = {''sys''}, environ_QT_API = Some ''pyqt'',
      import_module = (\<lambda>m. True)\<rparr>" "''pyqt''"]
    select_qt_api_precedence [of "\<lparr>sys_modules = {''sys''}, environ_QT_API = None,
      import_module = (\<lambda>m. m = ''PyQt5'' \<or> m = ''PyQt4'')\<rparr>"]
  by simp

section \<open>Properties of the column data model\<close>

lemma row_info_loop_valid:
  "valid_row info row \<Longrightarrow> row_info_loop info row = Inr (row_at info row)"
  by (induction row arbitrary: info) (simp_all add: getitem_def)

lemma row_info_object_valid:
  "valid_row (row_info self) row \<Longrightarrow>
   row_info_object self row = Inr (row_at (row_info self) row)"
  by (simp add: row_info_object_def row_info_loop_valid)

lemma example_valid_row: "valid_row (row_info example_model) [1, 0]"
  by (simp add: example_model_def example_row_info_def in_range_def position_def)

lemma example_row_at:
  "row_at (row_info example_model) [1, 0] = HasTraitsRowInfo ''Street'' [] ''address.street''"
  by (simp add: example_model_def example_row_info_def position_def)

lemma split_dots_address_street: "split_dots ''address.street'' = [''address'', ''street'']"
  by simp

text \<open>
  C2. For a row path that is valid in the tree of row infos and any column path,
  \<open>ColumnDataModel.get_value\<close> returns the title of the row info the row path leads to
  when the column path is empty, and otherwise what that row info's \<open>get_value\<close> gives
  on \<open>data[column[0]]\<close> (an \<open>IndexError\<close> of that indexing included). This holds
  whatever the operations on the objects do.
\<close>

theorem ColumnDataModel_get_value_valid_row:
  assumes "valid_row (row_info self) row"
  shows "ColumnDataModel_get_value rt self s row column =
     (case column of
        [] \<Rightarrow> (Inr (PyStr (title (row_at (row_info self) row))), s)
      | c # cs \<Rightarrow>
          (case getitem (data self) c of
             Inl e \<Rightarrow> (Inl e, s)
           | Inr obj \<Rightarrow> get_value rt (row_at (row_info self) row) s obj))"
  using assms
  by (simp add: ColumnDataModel_get_value_def row_info_object_valid split: list.splits)

theorem ColumnDataModel_get_value_valid_row_witness:
  "valid_row (row_info example_model) [1, 0] \<and>
   ColumnDataModel_get_value example_runtime example_model example_heap [1, 0] [] =
     (Inr (PyStr ''Street''), example_heap) \<and>
   ColumnDataModel_get_value example_runtime example_model example_heap [1, 0] [1] =
     (Inr (PyStr ''3 Oak Lane''), example_heap) \<and>
   ColumnDataModel_get_value example_runtime example_model example_heap [1, 0] [2] =
     (Inl IndexError, example_heap)"
proof -
  have obj: "getitem (data example_model) 1 = Inr (Ref 2)"
    by (simp add: example_model_def getitem_def in_range_def position_def)
  have none: "getitem (data example_model) 2 = Inl IndexError"
    by (simp add: example_model_def getitem_def in_range_def)
  have street: "HasTraitsRowInfo_get_value example_runtime
      (HasTraitsRowInfo ''Street'' [] ''address.street'') example_heap (Ref 2) =
      (Inr (PyStr ''3 Oak Lane''), example_heap)"
    unfolding HasTraitsRowInfo_get_value_def example_runtime_def
    by (simp add: split_dots_address_street heap_getattr_def example_heap_def Person_def
        Address_def del: split_dots.simps)
  show ?thesis
    using ColumnDataModel_get_value_valid_row [OF example_valid_row, of example_runtime
        example_heap "[]"]
      ColumnDataModel_get_value_valid_row [OF example_valid_row, of example_runtime
        example_heap "[1]"]
      ColumnDataModel_get_value_valid_row [OF example_valid_row, of example_runtime
        example_heap "[2]"]
    by (simp add: example_valid_row example_row_at obj none street
        del: valid_row.simps row_at.simps)
qed

text \<open>
  C4. For a valid row path and any value, \<open>ColumnDataModel.set_value\<close> with the empty
  column path returns \<open>False\<close> and leaves the heap, and so every object of \<open>data\<close>,
  as it was.
\<close>

theorem ColumnDataModel_set_value_title_column:
  assumes "valid_row (row_info self) row"
  shows "ColumnDataModel_set_value rt self s row [] v = (Inr False, s)"
  using assms by (simp add: ColumnDataModel_set_value_def row_info_object_valid)

theorem ColumnDataModel_set_value_title_column_witness:
  "valid_row (row_info example_model) [1, 0] \<and>
   ColumnDataModel_set_value example_runtime example_model example_heap [1, 0] []
     (PyStr ''Road'') = (Inr False, example_heap)"
  using ColumnDataModel_set_value_title_column [OF example_valid_row, of example_runtime
      example_heap "PyStr ''Road''"]
  by (simp add: example_valid_row del: valid_row.simps)

text \<open>
  C7. For a valid, non-empty row path, \<open>get_row_count\<close> is the number of children of
  the row info the path leads to and \<open>can_have_children\<close> is \<open>True\<close> exactly when that
  number is not zero; for the empty row path \<open>can_have_children\<close> is \<open>True\<close>
  whatever the tree.
\<close>

theorem can_have_children_row_count:
  "(valid_row (row_info self) row \<and> row \<noteq> [] \<longrightarrow>
      get_row_count self row = Inr (length (rows (row_at (row_info self) row))) \<and>
      can_have_children self row = Inr (length (rows (row_at (row_info self) row)) \<noteq> 0)) \<and>
   can_have_children self [] = Inr True"
  by (simp add: can_have_children_def get_row_count_def row_info_object_valid)

theorem can_have_children_row_count_witness:
  "valid_row (row_info example_model) [1, 0] \<and>
   get_row_count example_model [1, 0] = Inr 0 \<and>
   can_have_children example_model [1, 0] = Inr False \<and>
   can_have_children example_model [] = Inr True"
  using can_have_children_row_count [of example_model "[1, 0]"]
  by (simp add: example_valid_row example_row_at del: valid_row.simps row_at.simps)

section \<open>Properties of the row infos\<close>

text \<open>
  C5, as the code has it. \<open>HasTraitsRowInfo.set_value\<close> returns \<open>False\<close> and leaves
  every object as it was when the value trait name is empty. With a name that is not
  empty it calls \<open>xsetattr(obj, name, value)\<close> and nothing else: when that call
  returns, \<open>set_value\<close> returns \<open>True\<close> and the objects are as \<open>xsetattr\<close> left
  them; when that call raises, the exception comes out of \<open>set_value\<close> and no boolean
  is returned. \<open>can_set_value\<close> is \<open>True\<close> exactly when the name is not empty.
\<close>

theorem HasTraitsRowInfo_set_value_cases:
  "(value_name self = [] \<longrightarrow>
      HasTraitsRowInfo_set_value rt self s obj v = (Inr False, s)) \<and>
   (value_name self \<noteq> [] \<and> xsetattr rt s obj (value_name self) v = (None, s') \<longrightarrow>
      HasTraitsRowInfo_set_value rt self s obj v = (Inr True, s')) \<and>
   (value_name self \<noteq> [] \<and> xsetattr rt s obj (value_name self) v = (Some e, s') \<longrightarrow>
      HasTraitsRowInfo_set_value rt self s obj v = (Inl e, s')) \<and>
   (HasTraitsRowInfo_can_set_value self obj \<longleftrightarrow> value_name self \<noteq> [])"
  by (simp add: HasTraitsRowInfo_set_value_def HasTraitsRowInfo_can_set_value_def)

theorem HasTraitsRowInfo_set_value_cases_witness:
  "xsetattr example_runtime example_heap (Ref 0) ''address.street'' (PyStr ''7 Hill Road'') =
     (None,
      [(0, Person ''Alan Jones'' 41 (Ref 1)),
       (1, Address ''7 Hill Road'' ''Austin'' ''USA''),
       (2, Person ''Gael Young'' 27 (Ref 3)),
       (3, Address ''3 Oak Lane'' ''Cambridge'' ''UK'')]) \<and>
   HasTraitsRowInfo_set_value example_runtime (HasTraitsRowInfo ''Street'' [] ''address.street'')
     example_heap (Ref 0) (PyStr ''7 Hill Road'') =
     (Inr True,
      [(0, Person ''Alan Jones'' 41 (Ref 1)),
       (1, Address ''7 Hill Road'' ''Austin'' ''USA''),
       (2, Person ''Gael Young'' 27 (Ref 3)),
       (3, Address ''3 Oak Lane'' ''Cambridge'' ''UK'')]) \<and>
   xsetattr example_runtime [(0, Person ''Alan Jones'' 41 PyNone)] (Ref 0) ''address.street''
     (PyStr ''7 Hill Road'') = (Some AttributeError, [(0, Person ''Alan Jones'' 41 PyNone)]) \<and>
   HasTraitsRowInfo_set_value example_runtime (HasTraitsRowInfo ''Street'' [] ''address.street'')
     [(0, Person ''Alan Jones'' 41 PyNone)] (Ref 0) (PyStr ''7 Hill Road'') =
     (Inl AttributeError, [(0, Person ''Alan Jones'' 41 PyNone)]) \<and>
   HasTraitsRowInfo_set_value example_runtime (HasTraitsRowInfo ''Address'' [] [])
     example_heap (Ref 0) (PyStr ''7 Hill Road'') = (Inr False, example_heap) \<and>
   \<not> HasTraitsRowInfo_can_set_value (HasTraitsRowInfo ''Address'' [] []) (Ref 0)"
proof -
  have good: "xsetattr example_runtime example_heap (Ref 0) ''address.street''
      (PyStr ''7 Hill Road'') =
     (None,
      [(0, Person ''Alan Jones'' 41 (Ref 1)),
       (1, Address ''7 Hill Road'' ''Austin'' ''USA''),
       (2, Person ''Gael Young'' 27 (Ref 3)),
       (3, Address ''3 Oak Lane'' ''Cambridge'' ''UK'')])"
    unfolding example_runtime_def
    by (simp add: split_dots_address_street heap_getattr_def heap_setattr_def example_heap_def
        Person_def Address_def del: split_dots.simps)
  have bad: "xsetattr example_runtime [(0, Person ''Alan Jones'' 41 PyNone)] (Ref 0)
      ''address.street'' (PyStr ''7 Hill Road'') =
      (Some AttributeError, [(0, Person ''Alan Jones'' 41 PyNone)])"
    unfolding example_runtime_def
    by (simp add: split_dots_address_street heap_getattr_def heap_setattr_def Person_def
        del: split_dots.simps)
  show ?thesis
    using good bad
      HasTraitsRowInfo_set_value_cases [of "HasTraitsRowInfo ''Street'' [] ''address.street''"
        example_runtime example_heap "Ref 0" "PyStr ''7 Hill Road''" _ AttributeError]
      HasTraitsRowInfo_set_value_cases [of "HasTraitsRowInfo ''Street'' [] ''address.street''"
        example_runtime "[(0, Person ''Alan Jones'' 41 PyNone)]" "Ref 0" "PyStr ''7 Hill Road''"
        "[(0, Person ''Alan Jones'' 41 PyNone)]" AttributeError]
      HasTraitsRowInfo_set_value_cases [of "HasTraitsRowInfo ''Address'' [] []"
        example_runtime example_heap "Ref 0" "PyStr ''7 Hill Road''" example_heap AttributeError]
    by simp
qed

text \<open>
  C5 as stated promises \<open>True\<close> for every object whenever the name is not empty. A
  person whose \<open>address\<close> is \<open>None\<close> and the row info for \<open>address.street\<close>:
  \<open>xsetattr\<close> reaches \<open>None\<close>, which takes no attribute, and the call raises
  \<open>AttributeError\<close>.
\<close>

theorem HasTraitsRowInfo_set_value_counterexample:
  "HasTraitsRowInfo_set_value example_runtime (HasTraitsRowInfo ''Street'' [] ''address.street'')
     [(0, Person ''Alan Jones'' 41 PyNone)] (Ref 0) (PyStr ''12 Elm Street'') =
     (Inl AttributeError, [(0, Person ''Alan Jones'' 41 PyNone)])"
  unfolding HasTraitsRowInfo_set_value_def example_runtime_def
  by (simp add: split_dots_address_street heap_getattr_def heap_setattr_def Person_def
      del: split_dots.simps)

text \<open>
  C10, as the code has it. \<open>DictRowInfo.set_value\<close> never looks at the value trait
  name itself and never returns \<open>False\<close>. It looks the name up with
  \<open>xgetattr(obj, name, None)\<close> and assigns \<open>data[key] = value\<close> on what it found:
  when both return, \<open>set_value\<close> returns \<open>True\<close>; when either raises, the
  exception comes out of \<open>set_value\<close> and no boolean is returned.
  \<open>can_set_value\<close> is \<open>True\<close> exactly when the name is not empty.
\<close>

theorem DictRowInfo_set_value_cases:
  "(xgetattr rt s obj (value_name self) PyNone = (Inr found, s1) \<and>
    setitem rt s1 found (key self) v = (None, s2) \<longrightarrow>
      DictRowInfo_set_value rt self s obj v = (Inr True, s2)) \<and>
   (xgetattr rt s obj (value_name self) PyNone = (Inr found, s1) \<and>
    setitem rt s1 found (key self) v = (Some e, s2) \<longrightarrow>
      DictRowInfo_set_value rt self s obj v = (Inl e, s2)) \<and>
   (xgetattr rt s obj (value_name self) PyNone = (Inl e, s1) \<longrightarrow>
      DictRowInfo_set_value rt self s obj v = (Inl e, s1)) \<and>
   fst (DictRowInfo_set_value rt self s obj v) \<noteq> Inr False \<and>
   (DictRowInfo_can_set_value self obj \<longleftrightarrow> value_name self \<noteq> [])"
  by (auto simp: DictRowInfo_set_value_def DictRowInfo_can_set_value_def
      split: prod.splits sum.splits option.splits)

theorem DictRowInfo_set_value_cases_witness:
  "xgetattr example_runtime
      [(0, Instance [(''name'', PyStr ''Alan Jones''), (''marks'', Ref 1)]),
       (1, Dict [(''maths'', PyInt 70)])]
      (Ref 0) ''marks'' PyNone =
     (Inr (Ref 1),
      [(0, Instance [(''name'', PyStr ''Alan Jones''), (''marks'', Ref 1)]),
       (1, Dict [(''maths'', PyInt 70)])]) \<and>
   setitem example_runtime
      [(0, Instance [(''name'', PyStr ''Alan Jones''), (''marks'', Ref 1)]),
       (1, Dict [(''maths'', PyInt 70)])]
      (Ref 1) ''maths'' (PyInt 90) =
     (None,
      [(0, Instance [(''name'', PyStr ''Alan Jones''), (''marks'', Ref 1)]),
       (1, Dict [(''maths'', PyInt 90)])]) \<and>
   DictRowInfo_set_value example_runtime (DictRowInfo ''Maths'' [] ''marks'' ''maths'')
      [(0, Instance [(''name'', PyStr ''Alan Jones''), (''marks'', Ref 1)]),
       (1, Dict [(''maths'', PyInt 70)])]
      (Ref 0) (PyInt 90) =
     (Inr True,
      [(0, Instance [(''name'', PyStr ''Alan Jones''), (''marks'', Ref 1)]),
       (1, Dict [(''maths'', PyInt 90)])]) \<and>
   xgetattr example_runtime
      [(0, Instance [(''name'', PyStr ''Alan Jones''), (''marks'', Ref 1)]),
       (1, Dict [(''maths'', PyInt 70)])]
      (Ref 0) [] PyNone =
     (Inr PyNone,
      [(0, Instance [(''name'', PyStr ''Alan Jones''), (''marks'', Ref 1)]),
       (1, Dict [(''maths'', PyInt 70)])]) \<and>
   setitem example_runtime
      [(0, Instance [(''name'', PyStr ''Alan Jones''), (''marks'', Ref 1)]),
       (1, Dict [(''maths'', PyInt 70)])]
      PyNone ''maths'' (PyInt 90) =
     (Some TypeError,
      [(0, Instance [(''name'', PyStr ''Alan Jones''), (''marks'', Ref 1)]),
       (1, Dict [(''maths'', PyInt 70)])]) \<and>
   DictRowInfo_set_value example_runtime (DictRowInfo ''Maths'' [] [] ''maths'')
      [(0, Instance [(''name'', PyStr ''Alan Jones''), (''marks'', Ref 1)]),
       (1, Dict [(''maths'', PyInt 70)])]
      (Ref 0) (PyInt 90) =
     (Inl TypeError,
      [(0, Instance [(''name'', PyStr ''Alan Jones''), (''marks'', Ref 1)]),
       (1, Dict [(''maths'', PyInt 70)])]) \<and>
   \<not> DictRowInfo_can_set_value (DictRowInfo ''Maths'' [] [] ''maths'') (Ref 0) \<and>
   DictRowInfo_set_value
      (example_runtime\<lparr>xgetattr := \<lambda>h object xname dflt. (Inl (OtherException ''ValueError''), h)\<rparr>)
      (DictRowInfo ''Maths'' [] ''marks'' ''maths'')
      [(0, Instance [(''name'', PyStr ''Alan Jones''), (''marks'', Ref 1)]),
       (1, Dict [(''maths'', PyInt 70)])]
      (Ref 0) (PyInt 90) =
     (Inl (OtherException ''ValueError''),
      [(0, Instance [(''name'', PyStr ''Alan Jones''), (''marks'', Ref 1)]),
       (1, Dict [(''maths'', PyInt 70)])])"
proof -
  let ?h = "[(0, Instance [(''name'', PyStr ''Alan Jones''), (''marks'', Ref 1)]),
       (1, Dict [(''maths'', PyInt 70)])]"
  let ?h' = "[(0, Instance [(''name'', PyStr ''Alan Jones''), (''marks'', Ref 1)]),
       (1, Dict [(''maths'', PyInt 90)])]"
  let ?raising = "example_runtime\<lparr>xgetattr := \<lambda>h object xname dflt.
      (Inl (OtherException ''ValueError''), h)\<rparr>"
  have get: "xgetattr example_runtime ?h (Ref 0) ''marks'' PyNone = (Inr (Ref 1), ?h)"
    by (simp add: example_runtime_def heap_getattr_def)
  have put: "setitem example_runtime ?h (Ref 1) ''maths'' (PyInt 90) = (None, ?h')"
    by (simp add: example_runtime_def heap_dict_setitem_def)
  have get0: "xgetattr example_runtime ?h (Ref 0) [] PyNone = (Inr PyNone, ?h)"
    by (simp add: example_runtime_def heap_getattr_def)
  have put0: "setitem example_runtime ?h PyNone ''maths'' (PyInt 90) = (Some TypeError, ?h)"
    by (simp add: example_runtime_def heap_dict_setitem_def)
  have raise: "xgetattr ?raising ?h (Ref 0) ''marks'' PyNone =
      (Inl (OtherException ''ValueError''), ?h)"
    by simp
  show ?thesis
    using get put get0 put0 raise
      DictRowInfo_set_value_cases [of example_runtime ?h "Ref 0"
        "DictRowInfo ''Maths'' [] ''marks'' ''maths''" "Ref 1" ?h "PyInt 90" ?h' TypeError]
      DictRowInfo_set_value_cases [of example_runtime ?h "Ref 0"
        "DictRowInfo ''Maths'' [] [] ''maths''" PyNone ?h "PyInt 90" ?h TypeError]
      DictRowInfo_set_value_cases [of ?raising ?h "Ref 0"
        "DictRowInfo ''Maths'' [] ''marks'' ''maths''" "Ref 1" ?h "PyInt 90" ?h
        "OtherException ''ValueError''"]
    by simp
qed

text \<open>
  C10 as stated promises \<open>True\<close> for every object, the empty value trait name
  included. An object with a dictionary under \<open>marks\<close> and a row info whose name is
  empty: the object has no attribute of the empty name, \<open>xgetattr\<close> gives the default
  \<open>None\<close>, \<open>None\<close> takes no item, and the call raises \<open>TypeError\<close>.
\<close>

theorem DictRowInfo_set_value_counterexample:
  "DictRowInfo_set_value example_runtime (DictRowInfo ''Maths'' [] [] ''maths'')
      [(0, Instance [(''name'', PyStr ''Alan Jones''), (''marks'', Ref 1)]),
       (1, Dict [(''maths'', PyInt 70)])]
      (Ref 0) (PyInt 90) =
     (Inl TypeError,
      [(0, Instance [(''name'', PyStr ''Alan Jones''), (''marks'', Ref 1)]),
       (1, Dict [(''maths'', PyInt 70)])])"
  by (simp add: DictRowInfo_set_value_def example_runtime_def heap_getattr_def
      heap_dict_setitem_def)

section \<open>Properties of the value type and the colour dialog\<close>

text \<open>
  C3. For every model, row, column and text, the default \<open>set_text\<close> raises
  \<open>DataViewSetError\<close> with the message "Cannot set value."; it never returns.
\<close>

theorem set_text_raises:
  "set_text model row column text_arg = Inl (DataViewSetError ''Cannot set value.'') \<and>
   set_text model row column text_arg \<noteq> Inr model'"
  by (simp add: set_text_def)

text \<open>
  C9. \<open>get_color\<close> constructs the dialog with the keyword \<open>color\<close> alone, so the
  arguments \<open>parent\<close> and \<open>show_alpha\<close> do not reach the dialog and do not change the
  result; it returns the dialog's colour when \<open>open()\<close> gave \<open>OK\<close> and \<open>None\<close>
  for every other result.
\<close>

theorem get_color_uses_color_only:
  "get_color tk parent color show_alpha =
     (case dialog_open tk (ColorDialog tk None (Some color) None) of
        (result, dialog) \<Rightarrow>
          if result = OK tk then Some (dialog_color tk dialog) else None) \<and>
   get_color tk parent color show_alpha = get_color tk parent' color show_alpha'"
  by (simp add: get_color_def)

end
